theory Spec2Isabelle
  imports Main "HOL-Library.Finite_Map" "HOL-Library.Sublist"
begin

section \<open>Go values used by the Machine controller\<close>

text \<open>
  A Go \<open>map[string]string\<close> is either \<open>nil\<close> (\<open>None\<close>) or an allocated map with
  finitely many keys. Reading from a nil map finds nothing, \<open>delete\<close> on a nil map does
  nothing, and assigning into a nil map panics.
\<close>

type_synonym gomap = "(string, string) fmap option"

datatype panic = AssignmentToEntryInNilMap

definition make_map :: gomap where
  "make_map = Some fmempty"

text \<open>The comma-ok lookup \<open>v, exist := m[k]\<close>: \<open>None\<close> is \<open>exist = false\<close>.\<close>

definition map_index :: "gomap \<Rightarrow> string \<Rightarrow> string option" where
  "map_index m k = (case m of None \<Rightarrow> None | Some f \<Rightarrow> fmlookup f k)"

definition map_assign :: "gomap \<Rightarrow> string \<Rightarrow> string \<Rightarrow> panic + gomap" where
  "map_assign m k v =
     (case m of None \<Rightarrow> Inl AssignmentToEntryInNilMap
      | Some f \<Rightarrow> Inr (Some (fmupd k v f)))"

definition map_delete :: "gomap \<Rightarrow> string \<Rightarrow> gomap" where
  "map_delete m k = (case m of None \<Rightarrow> None | Some f \<Rightarrow> Some (fmdrop k f))"

text \<open>
  Errors are values. \<open>NotFound\<close> is the API server's not-found status; \<open>Failure\<close> is any
  other error of the store; \<open>Wrapf e fmt args\<close> is \<open>errors.Wrapf(e, fmt, args...)\<close>.
\<close>

datatype error = NotFound | Failure string | Wrapf error string "string list"

fun IsNotFound :: "error \<Rightarrow> bool" where
  "IsNotFound NotFound = True"
| "IsNotFound (Failure _) = False"
| "IsNotFound (Wrapf _ _ _) = False"

text \<open>\<open>ctrl.Result\<close>; \<open>ctrl.Result{}\<close> is its zero value.\<close>

record Result =
  Requeue :: bool
  RequeueAfter :: int

definition Result_zero :: Result where
  "Result_zero = \<lparr>Requeue = False, RequeueAfter = 0\<rparr>"

section \<open>Kubernetes objects\<close>

text \<open>
  \<open>metav1.ObjectMeta\<close>, with the fields the controller reads or writes. The deletion
  timestamp is a pointer to a time; a time is counted in seconds from Go's zero instant.
  \<open>Machine\<close> and \<open>Cluster\<close> embed the object metadata, as the Go structs do; their
  specification and status are never inspected by the controller and are kept opaque.
\<close>

record ObjectMeta =
  Name :: string
  Namespace :: string
  Labels :: gomap
  Annotations :: gomap
  DeletionTimestamp :: "int option"
  Finalizers :: "string list"

record Machine = ObjectMeta +
  GroupVersionKind :: string
  MachineSpec :: string
  MachineStatus :: string

record Cluster = ObjectMeta +
  ClusterSpec :: string
  ClusterStatus :: string

type_synonym NamespacedName = "string \<times> string"

record Request =
  NamespacedName :: NamespacedName

definition NamespacedName_String :: "NamespacedName \<Rightarrow> string" where
  "NamespacedName_String n = fst n @ ''/'' @ snd n"

text \<open>\<open>GetDeletionTimestamp().IsZero()\<close>: a nil pointer and the zero instant are zero.\<close>

fun IsZero :: "int option \<Rightarrow> bool" where
  "IsZero None = True"
| "IsZero (Some t) = (t = 0)"

subsection \<open>Constants\<close>

text \<open>The two constants of Cluster API's \<open>api/v1alpha3\<close> that the controller uses.\<close>

definition ClusterLabelName :: string where
  "ClusterLabelName = ''cluster.x-k8s.io/cluster-name''"

definition PreTerminateDeleteHookAnnotationPrefix :: string where
  "PreTerminateDeleteHookAnnotationPrefix = ''pre-terminate.delete.hook.machine.cluster.x-k8s.io''"

text \<open>
  \<open>akoov1alpha1.AviClusterLabel\<close> and \<open>akoov1alpha1.ClusterFinalizer\<close> are declared in the
  operator's API package; the controller is parametrised by their values.
\<close>

record akoov1alpha1 =
  AviClusterLabel :: string
  ClusterFinalizer :: string

definition preTerminateAnnotation :: string where
  "preTerminateAnnotation = PreTerminateDeleteHookAnnotationPrefix @ ''/avi-cleanup''"

subsection \<open>Library predicates\<close>

text \<open>
  \<open>annotations.HasWithPrefix\<close> of Cluster API: some key of the map starts with the
  prefix. It ranges over the keys of the map, so it is false on a nil map.
\<close>

definition HasWithPrefix :: "string \<Rightarrow> gomap \<Rightarrow> bool" where
  "HasWithPrefix p annotations =
     (case annotations of None \<Rightarrow> False
      | Some f \<Rightarrow> fBex (fmdom f) (\<lambda>key. prefix p key))"

text \<open>
  Modelled from the spec: \<open>controllerruntime.ContainsFinalizer\<close> (package
  \<open>pkg/controller-runtime\<close>) is "the owner's finalizer set still contains the managing
  finalizer".
\<close>

definition ContainsFinalizer :: "'a ObjectMeta_scheme \<Rightarrow> string \<Rightarrow> bool" where
  "ContainsFinalizer ob finalizer = (finalizer \<in> set (Finalizers ob))"

section \<open>The object store\<close>

text \<open>
  The client holds the stored machines and clusters, each found by its namespace and
  name. A read, the creation of the patch helper, the computation of the difference and
  the update request can each fail: the store says with which error. \<open>updates\<close> records
  the update requests that were issued, the latest first.
\<close>

record Client =
  machines :: "Machine list"
  clusters :: "Cluster list"
  get_machine_fault :: "error option"
  get_cluster_fault :: "error option"
  helper_fault :: "error option"
  diff_fault :: "error option"
  update_fault :: "error option"
  updates :: "Machine list"

definition key_of :: "'a ObjectMeta_scheme \<Rightarrow> NamespacedName" where
  "key_of ob = (Namespace ob, Name ob)"

definition Get_Machine :: "Client \<Rightarrow> NamespacedName \<Rightarrow> error + Machine" where
  "Get_Machine c key =
     (case get_machine_fault c of Some e \<Rightarrow> Inl e
      | None \<Rightarrow>
         (case find (\<lambda>m. key_of m = key) (machines c) of
            None \<Rightarrow> Inl NotFound
          | Some m \<Rightarrow> Inr m))"

definition Get_Cluster :: "Client \<Rightarrow> NamespacedName \<Rightarrow> error + Cluster" where
  "Get_Cluster c key =
     (case get_cluster_fault c of Some e \<Rightarrow> Inl e
      | None \<Rightarrow>
         (case find (\<lambda>m. key_of m = key) (clusters c) of
            None \<Rightarrow> Inl NotFound
          | Some m \<Rightarrow> Inr m))"

subsection \<open>The patch transaction\<close>

text \<open>
  Modelled from the spec: the patch helper (package \<open>pkg/controller-runtime/patch\<close>).
  \<open>NewHelper\<close> takes a snapshot of the resource. \<open>Patch\<close> computes the difference between
  the snapshot and the resource as it is now and, if the difference is not empty, issues a
  single update request to the store. The difference is the list of the fields whose
  values differ. \<open>Patch\<close> fails when the computation of the difference fails or when the
  update fails.
\<close>

record Helper =
  before :: Machine

definition NewHelper :: "Client \<Rightarrow> Machine \<Rightarrow> error + Helper" where
  "NewHelper c obj =
     (case helper_fault c of Some e \<Rightarrow> Inl e
      | None \<Rightarrow> Inr \<lparr>before = obj\<rparr>)"

datatype field = FName | FNamespace | FLabels | FAnnotations | FDeletionTimestamp
  | FFinalizers | FGroupVersionKind | FSpec | FStatus

definition differs :: "Machine \<Rightarrow> Machine \<Rightarrow> field \<Rightarrow> bool" where
  "differs a b f =
     (case f of
        FName \<Rightarrow> Name a \<noteq> Name b
      | FNamespace \<Rightarrow> Namespace a \<noteq> Namespace b
      | FLabels \<Rightarrow> Labels a \<noteq> Labels b
      | FAnnotations \<Rightarrow> Annotations a \<noteq> Annotations b
      | FDeletionTimestamp \<Rightarrow> DeletionTimestamp a \<noteq> DeletionTimestamp b
      | FFinalizers \<Rightarrow> Finalizers a \<noteq> Finalizers b
      | FGroupVersionKind \<Rightarrow> GroupVersionKind a \<noteq> GroupVersionKind b
      | FSpec \<Rightarrow> MachineSpec a \<noteq> MachineSpec b
      | FStatus \<Rightarrow> MachineStatus a \<noteq> MachineStatus b)"

definition diff :: "Machine \<Rightarrow> Machine \<Rightarrow> field list" where
  "diff a b =
     filter (differs a b)
       [FName, FNamespace, FLabels, FAnnotations, FDeletionTimestamp, FFinalizers,
        FGroupVersionKind, FSpec, FStatus]"

text \<open>
  The update request replaces the stored machine of the same namespace and name; it is
  not found when the store has no such machine.
\<close>

definition Update_Machine :: "Client \<Rightarrow> Machine \<Rightarrow> Client \<times> error option" where
  "Update_Machine c obj =
     (let c1 = c\<lparr>updates := obj # updates c\<rparr> in
      case update_fault c of Some e \<Rightarrow> (c1, Some e)
      | None \<Rightarrow>
         (case find (\<lambda>m. key_of m = key_of obj) (machines c) of
            None \<Rightarrow> (c1, Some NotFound)
          | Some _ \<Rightarrow>
             (c1\<lparr>machines := map (\<lambda>m. if key_of m = key_of obj then obj else m) (machines c)\<rparr>,
              None)))"

definition Patch :: "Client \<Rightarrow> Helper \<Rightarrow> Machine \<Rightarrow> Client \<times> error option" where
  "Patch c h obj =
     (case diff_fault c of Some e \<Rightarrow> (c, Some e)
      | None \<Rightarrow> if diff (before h) obj = [] then (c, None) else Update_Machine c obj)"

section \<open>The Machine reconciler\<close>

text \<open>
  A function of the controller that mutates \<open>obj\<close> in place returns the machine as it has
  left it, together with how it ended: a panic, or the pair of its two results. Logging
  has no effect on the machine or on the store and is left out.
\<close>

type_synonym outcome = "panic + (Result \<times> error option)"

definition reconcileNormal :: "Machine \<Rightarrow> Cluster \<Rightarrow> Machine \<times> outcome" where
  "reconcileNormal obj cluster =
     (if map_index (Annotations obj) PreTerminateDeleteHookAnnotationPrefix = None then
        (let obj1 = (if Annotations obj = None then obj\<lparr>Annotations := make_map\<rparr> else obj)
         in case map_assign (Annotations obj1) preTerminateAnnotation ''ako-operator'' of
              Inl p \<Rightarrow> (obj1, Inl p)
            | Inr a \<Rightarrow> (obj1\<lparr>Annotations := a\<rparr>, Inr (Result_zero, None)))
      else (obj, Inr (Result_zero, None)))"

definition reconcileMachineDeletionHook ::
  "akoov1alpha1 \<Rightarrow> Machine \<Rightarrow> Cluster \<Rightarrow> Machine \<times> outcome" where
  "reconcileMachineDeletionHook K obj cluster =
     (let res = Result_zero in
      if ContainsFinalizer cluster (ClusterFinalizer K) then (obj, Inr (res, None))
      else if HasWithPrefix PreTerminateDeleteHookAnnotationPrefix (Annotations obj) then
        (obj\<lparr>Annotations := map_delete (Annotations obj) preTerminateAnnotation\<rparr>,
         Inr (res, None))
      else (obj, Inr (res, None)))"

definition reconcileClusterDelete ::
  "akoov1alpha1 \<Rightarrow> Machine \<Rightarrow> Cluster \<Rightarrow> Machine \<times> outcome" where
  "reconcileClusterDelete K obj cluster = reconcileMachineDeletionHook K obj cluster"

text \<open>
  The body of \<open>Reconcile\<close> from the point where the deferred patch is installed: the
  decision logic, on the machine that was fetched.
\<close>

definition Reconcile_body :: "akoov1alpha1 \<Rightarrow> Client \<Rightarrow> Machine \<Rightarrow> Machine \<times> outcome" where
  "Reconcile_body K c obj =
     (let res = Result_zero in
      case map_index (Labels obj) ClusterLabelName of
        None \<Rightarrow> (obj, Inr (res, None))
      | Some clusterName \<Rightarrow>
         (case Get_Cluster c (Namespace obj, clusterName) of
            Inl err \<Rightarrow> (obj, Inr (res, Some err))
          | Inr cluster \<Rightarrow>
             if map_index (Labels cluster) (AviClusterLabel K) = None then (obj, Inr (res, None))
             else if \<not> IsZero (DeletionTimestamp cluster) then
               (case reconcileClusterDelete K obj cluster of
                  (obj', Inl p) \<Rightarrow> (obj', Inl p)
                | (obj', Inr (res', Some err)) \<Rightarrow> (obj', Inr (res', Some err))
                | (obj', Inr (res', None)) \<Rightarrow> (obj', Inr (res', None)))
             else
               (case reconcileNormal obj cluster of
                  (obj', Inl p) \<Rightarrow> (obj', Inl p)
                | (obj', Inr (res', Some err)) \<Rightarrow> (obj', Inr (res', Some err))
                | (obj', Inr (res', None)) \<Rightarrow> (obj', Inr (res, None)))))"

text \<open>
  The deferred function: it patches the machine as the body has left it and, when the
  patch fails, makes its error the result only if the body has returned none. When the
  body panics the deferred function still runs and the panic goes on.
\<close>

definition deferred_patch ::
  "Client \<Rightarrow> Helper \<Rightarrow> Machine \<times> outcome \<Rightarrow> Client \<times> outcome" where
  "deferred_patch c patchHelper body =
     (case body of
        (obj', Inl p) \<Rightarrow> (fst (Patch c patchHelper obj'), Inl p)
      | (obj', Inr (res, reterr)) \<Rightarrow>
         (case Patch c patchHelper obj' of
            (c', Some err) \<Rightarrow> (c', Inr (res, if reterr = None then Some err else reterr))
          | (c', None) \<Rightarrow> (c', Inr (res, reterr))))"

definition Reconcile :: "akoov1alpha1 \<Rightarrow> Client \<Rightarrow> Request \<Rightarrow> Client \<times> outcome" where
  "Reconcile K c req =
     (case Get_Machine c (NamespacedName req) of
        Inl err \<Rightarrow>
          if IsNotFound err then (c, Inr (Result_zero, None))
          else (c, Inr (Result_zero, Some err))
      | Inr obj \<Rightarrow>
         (case NewHelper c obj of
            Inl err \<Rightarrow>
              (c, Inr (Result_zero,
                 Some (Wrapf err ''failed to init patch helper for %s %s''
                         [GroupVersionKind obj, NamespacedName_String (NamespacedName req)])))
          | Inr patchHelper \<Rightarrow> deferred_patch c patchHelper (Reconcile_body K c obj)))"

section \<open>The manifest renderer\<close>

text \<open>
  The deployment configuration, with the fields that the unit test of the renderer sets.
\<close>

record DataNetwork =
  DataNetworkName :: string
  CIDR :: string

record AKOImageConfig =
  Repository :: string
  PullPolicy :: string
  Version :: string

record AKORbacConfig =
  PspEnabled :: bool
  PspPolicyAPIVersion :: string

record AKOLogConfig =
  PersistentVolumeClaim :: string
  MountPath :: string
  LogFile :: string

record NodeNetwork =
  NetworkName :: string
  Cidrs :: "string list"

record AKOIngressConfig =
  DisableIngressClass :: bool
  DefaultIngressController :: bool
  ShardVSSize :: string
  ServiceType :: string
  NodeNetworkList :: "NodeNetwork list"

record ExtraConfigs =
  Image :: AKOImageConfig
  Rbac :: AKORbacConfig
  Log :: AKOLogConfig
  IngressConfigs :: AKOIngressConfig
  DisableStaticRouteSync :: bool

record AKODeploymentConfigSpec =
  CloudName :: string
  Controller :: string
  ServiceEngineGroup :: string
  DataNetwork :: DataNetwork
  ExtraConfigs :: ExtraConfigs

record AKODeploymentConfig =
  Spec :: AKODeploymentConfigSpec

text \<open>
  Modelled from the spec: the validation of a network range. The renderer is not among the
  sources; the spec asks that the data-network CIDR and each node-network CIDR be a
  syntactically correct network address with a prefix length. An address is an IPv4
  dotted quad or an IPv6 address in colon notation, the prefix length a decimal number of
  at most 32 or 128 bits.
\<close>

definition digit_value :: "char \<Rightarrow> nat option" where
  "digit_value = map_of
     [(CHR ''0'', 0), (CHR ''1'', 1), (CHR ''2'', 2), (CHR ''3'', 3), (CHR ''4'', 4),
      (CHR ''5'', 5), (CHR ''6'', 6), (CHR ''7'', 7), (CHR ''8'', 8), (CHR ''9'', 9)]"

fun decimal_from :: "nat \<Rightarrow> string \<Rightarrow> nat option" where
  "decimal_from n [] = Some n"
| "decimal_from n (ch # s) =
     (case digit_value ch of None \<Rightarrow> None | Some d \<Rightarrow> decimal_from (10 * n + d) s)"

definition decimal :: "string \<Rightarrow> nat option" where
  "decimal s = (if s = [] then None else decimal_from 0 s)"

fun split_on :: "char \<Rightarrow> string \<Rightarrow> string list" where
  "split_on sep [] = [[]]"
| "split_on sep (ch # s) =
     (if ch = sep then [] # split_on sep s
      else (case split_on sep s of [] \<Rightarrow> [[ch]] | w # ws \<Rightarrow> (ch # w) # ws))"

definition valid_octet :: "string \<Rightarrow> bool" where
  "valid_octet p = (case decimal p of None \<Rightarrow> False | Some n \<Rightarrow> length p \<le> 3 \<and> n \<le> 255)"

definition valid_ipv4 :: "string \<Rightarrow> bool" where
  "valid_ipv4 s = (let ps = split_on CHR ''.'' s in length ps = 4 \<and> list_all valid_octet ps)"

definition valid_group :: "string \<Rightarrow> bool" where
  "valid_group g =
     (1 \<le> length g \<and> length g \<le> 4 \<and>
      list_all (\<lambda>ch. List.member ''0123456789abcdefABCDEF'' ch) g)"

fun find_double_colon :: "string \<Rightarrow> (string \<times> string) option" where
  "find_double_colon (a # b # s) =
     (if a = CHR '':'' \<and> b = CHR '':'' then Some ([], s)
      else map_option (\<lambda>(l, r). (a # l, r)) (find_double_colon (b # s)))"
| "find_double_colon _ = None"

definition groups_of :: "string \<Rightarrow> string list" where
  "groups_of part = (if part = [] then [] else split_on CHR '':'' part)"

text \<open>
  Modelled from the spec: the number of 16-bit groups that a list of groups fills, when
  it is well formed. The last group may be an IPv4 address, which fills two.
\<close>

definition group_width :: "string list \<Rightarrow> nat option" where
  "group_width gs =
     (if gs = [] then Some 0
      else if list_all valid_group (butlast gs) then
        (if valid_group (last gs) then Some (length gs)
         else if valid_ipv4 (last gs) then Some (length gs + 1)
         else None)
      else None)"

definition valid_ipv6 :: "string \<Rightarrow> bool" where
  "valid_ipv6 s =
     (case find_double_colon s of
        None \<Rightarrow> group_width (groups_of s) = Some 8
      | Some (l, r) \<Rightarrow>
         (case (if list_all valid_group (groups_of l) then group_width (groups_of r) else None) of
            None \<Rightarrow> False
          | Some w \<Rightarrow> length (groups_of l) + w \<le> 7))"

definition valid_cidr :: "string \<Rightarrow> bool" where
  "valid_cidr s =
     (case split_on CHR ''/'' s of
        [address, plen] \<Rightarrow>
          (case decimal plen of
             None \<Rightarrow> False
           | Some n \<Rightarrow> valid_ipv4 address \<and> n \<le> 32 \<or> valid_ipv6 address \<and> n \<le> 128)
      | _ \<Rightarrow> False)"

text \<open>
  Modelled from the spec: \<open>RenderManifest\<close>, the function \<open>ConvertToAKODeploymentYaml\<close>
  of package \<open>bootstrap-cluster\<close>, of which only the unit test is among the sources. It
  validates the network ranges and then substitutes the fields of the configuration and
  the name of the management cluster into a fixed template; when a range is not valid it
  returns an error that names the field and the value, and no output. The template is a
  parameter. The test reads the name of the management cluster from the environment.
\<close>

datatype render_error = ValidationError string string

definition node_cidrs :: "AKODeploymentConfigSpec \<Rightarrow> string list" where
  "node_cidrs config = concat (map Cidrs (NodeNetworkList (IngressConfigs (ExtraConfigs config))))"

definition RenderManifest ::
  "(AKODeploymentConfigSpec \<Rightarrow> string \<Rightarrow> string) \<Rightarrow> AKODeploymentConfigSpec \<Rightarrow> string
   \<Rightarrow> render_error + string" where
  "RenderManifest template config mgmtClusterName =
     (if \<not> valid_cidr (CIDR (DataNetwork config)) then
        Inl (ValidationError ''spec.dataNetwork.cidr'' (CIDR (DataNetwork config)))
      else
        (case find (\<lambda>cidr. \<not> valid_cidr cidr) (node_cidrs config) of
           Some cidr \<Rightarrow>
             Inl (ValidationError ''spec.extraConfigs.ingress.nodeNetworkList.cidrs'' cidr)
         | None \<Rightarrow> Inr (template config mgmtClusterName)))"

definition ConvertToAKODeploymentYaml ::
  "(AKODeploymentConfigSpec \<Rightarrow> string \<Rightarrow> string) \<Rightarrow> string \<Rightarrow> AKODeploymentConfig
   \<Rightarrow> render_error + string" where
  "ConvertToAKODeploymentYaml template managementClusterName obj =
     RenderManifest template (Spec obj) managementClusterName"

text \<open>
  The configuration of the unit test \<open>unitTestAKODeploymentYaml\<close>, and the assignment to
  \<open>akoDeploymentConfig.Spec.DataNetwork.CIDR\<close> that the test makes.
\<close>

definition akoDeploymentConfig :: AKODeploymentConfig where
  "akoDeploymentConfig =
     \<lparr>Spec =
        \<lparr>CloudName = ''test-cloud'',
         Controller = ''10.23.122.1'',
         ServiceEngineGroup = ''Default-SEG'',
         DataNetwork = \<lparr>DataNetworkName = ''test-akdc'', CIDR = ''10.0.0.0/24''\<rparr>,
         ExtraConfigs =
           \<lparr>Image = \<lparr>Repository = ''test/image'', PullPolicy = ''IfNotPresent'',
                     Version = ''1.3.1''\<rparr>,
            Rbac = \<lparr>PspEnabled = True, PspPolicyAPIVersion = ''test/1.2''\<rparr>,
            Log = \<lparr>PersistentVolumeClaim = ''true'', MountPath = ''/var/log'',
                   LogFile = ''test-avi.log''\<rparr>,
            IngressConfigs =
              \<lparr>DisableIngressClass = True, DefaultIngressController = True,
               ShardVSSize = ''MEDIUM'', ServiceType = ''NodePort'',
               NodeNetworkList =
                 [\<lparr>NetworkName = ''test-node-network-1'',
                   Cidrs = [''10.0.0.0/24'', ''192.168.0.0/24'']\<rparr>]\<rparr>,
            DisableStaticRouteSync = True\<rparr>\<rparr>\<rparr>"

definition set_DataNetwork_CIDR :: "string \<Rightarrow> AKODeploymentConfig \<Rightarrow> AKODeploymentConfig" where
  "set_DataNetwork_CIDR cidr obj =
     obj\<lparr>Spec := (Spec obj)\<lparr>DataNetwork := (DataNetwork (Spec obj))\<lparr>CIDR := cidr\<rparr>\<rparr>\<rparr>"

section \<open>States of the owner and of the dependent\<close>

text \<open>
  The hook tag is the annotation keyed by \<open>preTerminateAnnotation\<close>. A machine and its
  cluster are in scope of a request when the reads of \<open>Reconcile\<close> succeed in turn: the
  machine is fetched, it names its cluster by the cluster-name label, that cluster is
  fetched, and the cluster carries the label that enables the load balancer.
\<close>

definition hookPresent :: "'a ObjectMeta_scheme \<Rightarrow> bool" where
  "hookPresent obj = (map_index (Annotations obj) preTerminateAnnotation \<noteq> None)"

definition deleting :: "Cluster \<Rightarrow> bool" where
  "deleting cluster = (\<not> IsZero (DeletionTimestamp cluster))"

definition finalizerPresent :: "akoov1alpha1 \<Rightarrow> Cluster \<Rightarrow> bool" where
  "finalizerPresent K cluster = ContainsFinalizer cluster (ClusterFinalizer K)"

definition owner_of :: "Client \<Rightarrow> Machine \<Rightarrow> Cluster \<Rightarrow> bool" where
  "owner_of c obj cluster =
     (case map_index (Labels obj) ClusterLabelName of
        None \<Rightarrow> False
      | Some clusterName \<Rightarrow> Get_Cluster c (Namespace obj, clusterName) = Inr cluster)"

definition in_scope :: "akoov1alpha1 \<Rightarrow> Client \<Rightarrow> Request \<Rightarrow> Machine \<Rightarrow> Cluster \<Rightarrow> bool" where
  "in_scope K c req obj cluster =
     (Get_Machine c (NamespacedName req) = Inr obj \<and>
      owner_of c obj cluster \<and>
      map_index (Labels cluster) (AviClusterLabel K) \<noteq> None)"

section \<open>Example objects\<close>

text \<open>
  A machine \<open>default/md-0\<close> of the cluster \<open>default/wc\<close>, with the annotations, the cluster
  labels, the deletion timestamp and the finalizers left open, and a store without faults.
\<close>

definition ex_K :: akoov1alpha1 where
  "ex_K = \<lparr>AviClusterLabel = ''networking.tkg.tanzu.vmware.com/avi'',
           ClusterFinalizer = ''ako-operator.networking.tkg.tanzu.vmware.com''\<rparr>"

definition ex_machine :: "gomap \<Rightarrow> Machine" where
  "ex_machine a =
     \<lparr>Name = ''md-0'', Namespace = ''default'',
      Labels = Some (fmupd ClusterLabelName ''wc'' fmempty), Annotations = a,
      DeletionTimestamp = None, Finalizers = [],
      GroupVersionKind = ''cluster.x-k8s.io/v1alpha3, Kind=Machine'',
      MachineSpec = ''spec'', MachineStatus = ''status''\<rparr>"

definition ex_cluster :: "gomap \<Rightarrow> int option \<Rightarrow> string list \<Rightarrow> Cluster" where
  "ex_cluster l d f =
     \<lparr>Name = ''wc'', Namespace = ''default'', Labels = l, Annotations = None,
      DeletionTimestamp = d, Finalizers = f,
      ClusterSpec = ''spec'', ClusterStatus = ''status''\<rparr>"

definition ex_avi :: gomap where
  "ex_avi = Some (fmupd (AviClusterLabel ex_K) ''true'' fmempty)"

definition ex_client :: "Machine list \<Rightarrow> Cluster list \<Rightarrow> Client" where
  "ex_client ms cs =
     \<lparr>machines = ms, clusters = cs, get_machine_fault = None, get_cluster_fault = None,
      helper_fault = None, diff_fault = None, update_fault = None, updates = []\<rparr>"

definition ex_req :: Request where
  "ex_req = \<lparr>NamespacedName = (''default'', ''md-0'')\<rparr>"

text \<open>Stores with faults, and a cluster that is out of scope while it is being deleted.\<close>

definition ex_faulty :: Client where
  "ex_faulty =
     (ex_client [ex_machine None] [ex_cluster ex_avi None []])
       \<lparr>get_cluster_fault := Some (Failure ''cluster read''),
        diff_fault := Some (Failure ''patch'')\<rparr>"

definition ex_patch_faulty :: Client where
  "ex_patch_faulty =
     (ex_client [ex_machine None] [ex_cluster None None []])
       \<lparr>diff_fault := Some (Failure ''patch'')\<rparr>"

definition ex_out_of_scope :: Client where
  "ex_out_of_scope =
     ex_client [ex_machine (Some (fmupd preTerminateAnnotation ''ako-operator'' fmempty))]
       [ex_cluster None (Some 1600000000) []]"

text \<open>Stores without faults, for the states of the owner that the controller tells apart.\<close>

definition ex_nil :: Client where
  "ex_nil = ex_client [ex_machine None] [ex_cluster ex_avi None []]"

definition ex_other_hook :: string where
  "ex_other_hook = PreTerminateDeleteHookAnnotationPrefix @ ''/other-cleanup''"

definition ex_cleaned_up :: Client where
  "ex_cleaned_up =
     ex_client
       [ex_machine (Some (fmupd ex_other_hook ''other-operator''
                           (fmupd preTerminateAnnotation ''ako-operator'' fmempty)))]
       [ex_cluster ex_avi (Some 1600000000) []]"

definition ex_bare_prefix :: Client where
  "ex_bare_prefix =
     ex_client [ex_machine (Some (fmupd PreTerminateDeleteHookAnnotationPrefix ''x'' fmempty))]
       [ex_cluster ex_avi None []]"

definition ex_cleaning_up :: Client where
  "ex_cleaning_up =
     ex_client [ex_machine None]
       [ex_cluster ex_avi (Some 1600000000) [ClusterFinalizer ex_K]]"


text \<open>A store that rejects every update request, and a template for the renderer.\<close>

definition ex_update_faulty :: Client where
  "ex_update_faulty =
     (ex_client [ex_machine None] [ex_cluster ex_avi None []])
       \<lparr>update_fault := Some (Failure ''boom'')\<rparr>"

definition ex_template :: "AKODeploymentConfigSpec \<Rightarrow> string \<Rightarrow> string" where
  "ex_template config mgmtClusterName =
     ''clusterName: '' @ mgmtClusterName @ ''; cloudName: '' @ CloudName config @
     ''; subnet: '' @ CIDR (DataNetwork config)"

text \<open>A store in which the cluster of the machine is missing.\<close>

definition ex_orphan :: Client where
  "ex_orphan = ex_client [ex_machine None] []"

section \<open>Facts about the store and the decision logic\<close>

lemmas ex_defs = ex_client_def ex_machine_def ex_cluster_def ex_avi_def ex_K_def ex_req_def
lemmas go_defs = map_index_def map_assign_def map_delete_def make_map_def HasWithPrefix_def
  ContainsFinalizer_def key_of_def ClusterLabelName_def PreTerminateDeleteHookAnnotationPrefix_def
  preTerminateAnnotation_def Result_zero_def
lemmas store_defs = Get_Machine_def Get_Cluster_def NewHelper_def Patch_def Update_Machine_def
  diff_def differs_def
lemmas ctl_defs = Reconcile_def deferred_patch_def Reconcile_body_def reconcileClusterDelete_def
  reconcileMachineDeletionHook_def reconcileNormal_def

lemma fmupd_same: "fmlookup f k = Some v \<Longrightarrow> fmupd k v f = f"
  by (rule fmap_ext) auto

lemma diff_empty_iff: "diff a b = [] \<longleftrightarrow> a = b"
  by (cases a; cases b) (auto simp: diff_def differs_def)

lemma Get_Machine_key: "Get_Machine c key = Inr obj \<Longrightarrow> key_of obj = key"
  by (auto simp: Get_Machine_def find_Some_iff split: option.splits)

lemma find_replace:
  "find (\<lambda>m. f m = k) xs = Some x \<Longrightarrow> f y = k \<Longrightarrow>
   find (\<lambda>m. f m = k) (map (\<lambda>m. if f m = k then y else m) xs) = Some y"
  by (induction xs) (auto split: if_splits)

lemma reconcileNormal_eq:
  "reconcileNormal obj cluster =
     (if map_index (Annotations obj) PreTerminateDeleteHookAnnotationPrefix = None
      then obj\<lparr>Annotations :=
             Some (fmupd preTerminateAnnotation ''ako-operator''
                    (case Annotations obj of None \<Rightarrow> fmempty | Some f \<Rightarrow> f))\<rparr>
      else obj,
      Inr (Result_zero, None))"
  by (auto simp: reconcileNormal_def map_assign_def make_map_def Let_def split: option.splits)

lemma reconcileMachineDeletionHook_eq:
  "reconcileMachineDeletionHook K obj cluster =
     (if \<not> ContainsFinalizer cluster (ClusterFinalizer K) \<and>
         HasWithPrefix PreTerminateDeleteHookAnnotationPrefix (Annotations obj)
      then obj\<lparr>Annotations := map_delete (Annotations obj) preTerminateAnnotation\<rparr>
      else obj,
      Inr (Result_zero, None))"
  by (simp add: reconcileMachineDeletionHook_def Let_def)

lemma Update_Machine_stored:
  assumes "Get_Machine c key = Inr obj" and "key_of obj' = key"
    and "Update_Machine c obj' = (c', None)"
  shows "Get_Machine c' key = Inr obj'"
proof -
  from assms(1) have nf: "get_machine_fault c = None"
    and f: "find (\<lambda>m. key_of m = key) (machines c) = Some obj"
    by (auto simp: Get_Machine_def split: option.splits)
  from assms(3) f assms(2) have c': "c' = c\<lparr>updates := obj' # updates c,
      machines := map (\<lambda>m. if key_of m = key then obj' else m) (machines c)\<rparr>"
    by (auto simp: Update_Machine_def Let_def split: option.splits)
  show ?thesis
    using find_replace [of key_of key "machines c" obj obj', OF f assms(2)]
    by (simp add: c' Get_Machine_def nf)
qed

lemma Patch_stored:
  assumes "Get_Machine c key = Inr obj" and "key_of obj' = key"
    and "Patch c \<lparr>before = obj\<rparr> obj' = (c', None)"
  shows "Get_Machine c' key = Inr obj'"
proof (cases "diff obj obj' = []")
  case True
  with assms(3) have "c' = c" by (simp add: Patch_def split: option.splits)
  with True assms(1) show ?thesis by (simp add: diff_empty_iff)
next
  case False
  with assms(3) have "Update_Machine c obj' = (c', None)"
    by (simp add: Patch_def split: option.splits)
  then show ?thesis by (rule Update_Machine_stored [OF assms(1,2)])
qed

lemma Reconcile_body_eq:
  "Reconcile_body K c obj =
     (case map_index (Labels obj) ClusterLabelName of
        None \<Rightarrow> (obj, Inr (Result_zero, None))
      | Some clusterName \<Rightarrow>
         (case Get_Cluster c (Namespace obj, clusterName) of
            Inl err \<Rightarrow> (obj, Inr (Result_zero, Some err))
          | Inr cluster \<Rightarrow>
             if map_index (Labels cluster) (AviClusterLabel K) = None
             then (obj, Inr (Result_zero, None))
             else if \<not> IsZero (DeletionTimestamp cluster)
             then reconcileMachineDeletionHook K obj cluster
             else reconcileNormal obj cluster))"
  by (simp add: Reconcile_body_def Let_def reconcileClusterDelete_def
      reconcileNormal_eq reconcileMachineDeletionHook_eq split: option.splits sum.splits)

lemma Reconcile_body_in_scope:
  assumes "in_scope K c req obj cluster"
  shows "Reconcile_body K c obj =
     (if \<not> IsZero (DeletionTimestamp cluster)
      then reconcileMachineDeletionHook K obj cluster
      else reconcileNormal obj cluster)"
  using assms
  by (auto simp: in_scope_def owner_of_def Reconcile_body_eq split: option.splits)

lemma reconcileNormal_key: "key_of (fst (reconcileNormal obj cluster)) = key_of obj"
  by (simp add: reconcileNormal_eq key_of_def)

lemma reconcileMachineDeletionHook_key:
  "key_of (fst (reconcileMachineDeletionHook K obj cluster)) = key_of obj"
  by (simp add: reconcileMachineDeletionHook_eq key_of_def)

lemma Reconcile_body_key: "key_of (fst (Reconcile_body K c obj)) = key_of obj"
  by (simp add: Reconcile_body_eq reconcileNormal_key reconcileMachineDeletionHook_key
      split: option.splits sum.splits)

lemma Reconcile_body_no_panic: "\<exists>r. snd (Reconcile_body K c obj) = Inr r"
  by (simp add: Reconcile_body_eq reconcileNormal_eq reconcileMachineDeletionHook_eq
      split: option.splits sum.splits)

lemma deferred_patch_success:
  assumes "deferred_patch c h (obj', out) = (c', Inr (res, None))"
  shows "out = Inr (res, None) \<and> Patch c h obj' = (c', None)"
proof (cases out)
  case (Inl p)
  with assms show ?thesis by (simp add: deferred_patch_def)
next
  case (Inr r)
  obtain res' reterr where r: "r = (res', reterr)" by (cases r)
  obtain c1 perr where p: "Patch c h obj' = (c1, perr)" by (cases "Patch c h obj'")
  from assms show ?thesis
    by (cases perr; cases reterr) (simp_all add: deferred_patch_def Inr r p)
qed

lemma Reconcile_success_state:
  assumes "Get_Machine c (NamespacedName req) = Inr obj"
    and "Reconcile K c req = (c', Inr (res, None))"
  shows "Get_Machine c' (NamespacedName req) = Inr (fst (Reconcile_body K c obj))
         \<and> snd (Reconcile_body K c obj) = Inr (res, None)"
proof -
  obtain obj' out where body: "Reconcile_body K c obj = (obj', out)"
    by (cases "Reconcile_body K c obj")
  have key: "key_of obj' = NamespacedName req"
    using Reconcile_body_key [of K c obj] Get_Machine_key [OF assms(1)] body by simp
  have helper: "NewHelper c obj = Inr \<lparr>before = obj\<rparr>"
  proof (cases "helper_fault c")
    case None
    then show ?thesis by (simp add: NewHelper_def)
  next
    case (Some e)
    with assms show ?thesis by (simp add: Reconcile_def NewHelper_def)
  qed
  from assms have "deferred_patch c \<lparr>before = obj\<rparr> (obj', out) = (c', Inr (res, None))"
    by (simp add: Reconcile_def body helper)
  then have "out = Inr (res, None)" and "Patch c \<lparr>before = obj\<rparr> obj' = (c', None)"
    using deferred_patch_success by blast+
  then show ?thesis
    using Patch_stored [OF assms(1) key] body by simp
qed

lemma hook_HasWithPrefix:
  assumes "map_index a preTerminateAnnotation \<noteq> None"
  shows "HasWithPrefix PreTerminateDeleteHookAnnotationPrefix a"
proof (cases a)
  case None
  with assms show ?thesis by (simp add: map_index_def)
next
  case (Some f)
  with assms have "preTerminateAnnotation |\<in>| fmdom f"
    by (auto simp: map_index_def intro: fmdomI)
  moreover have "prefix PreTerminateDeleteHookAnnotationPrefix preTerminateAnnotation"
    by (simp add: preTerminateAnnotation_def)
  ultimately show ?thesis by (auto simp: HasWithPrefix_def Some)
qed

lemma map_delete_other: "k \<noteq> k' \<Longrightarrow> map_index (map_delete a k') k = map_index a k"
  by (simp add: map_index_def map_delete_def split: option.splits)

lemma map_delete_same: "map_index (map_delete a k) k = None"
  by (simp add: map_index_def map_delete_def split: option.splits)

lemma Reconcile_success_patch:
  assumes "Get_Machine c (NamespacedName req) = Inr obj"
    and "Reconcile K c req = (c', Inr (res, None))"
  shows "helper_fault c = None \<and>
         snd (Reconcile_body K c obj) = Inr (res, None) \<and>
         Patch c \<lparr>before = obj\<rparr> (fst (Reconcile_body K c obj)) = (c', None)"
proof -
  obtain obj' out where body: "Reconcile_body K c obj = (obj', out)"
    by (cases "Reconcile_body K c obj")
  have nf: "helper_fault c = None"
  proof (cases "helper_fault c")
    case (Some e)
    with assms show ?thesis by (simp add: Reconcile_def NewHelper_def)
  qed simp
  then have "NewHelper c obj = Inr \<lparr>before = obj\<rparr>" by (simp add: NewHelper_def)
  with assms have "deferred_patch c \<lparr>before = obj\<rparr> (obj', out) = (c', Inr (res, None))"
    by (simp add: Reconcile_def body)
  then have "out = Inr (res, None) \<and> Patch c \<lparr>before = obj\<rparr> obj' = (c', None)"
    by (rule deferred_patch_success)
  with nf body show ?thesis by simp
qed

lemma Update_Machine_frame:
  assumes "Update_Machine c obj = (c', e)"
  shows "clusters c' = clusters c \<and> get_cluster_fault c' = get_cluster_fault c \<and>
         helper_fault c' = helper_fault c \<and> diff_fault c' = diff_fault c"
  using assms by (auto simp: Update_Machine_def Let_def split: option.splits)

lemma Patch_frame:
  assumes "Patch c h obj = (c', e)"
  shows "clusters c' = clusters c \<and> get_cluster_fault c' = get_cluster_fault c \<and>
         helper_fault c' = helper_fault c \<and> diff_fault c' = diff_fault c"
proof (cases "diff_fault c = None \<and> diff (before h) obj \<noteq> []")
  case True
  with assms have "Update_Machine c obj = (c', e)" by (simp add: Patch_def)
  then show ?thesis by (rule Update_Machine_frame)
next
  case False
  with assms have "c' = c" by (auto simp: Patch_def split: option.splits)
  then show ?thesis by simp
qed

lemma Patch_success_no_fault: "Patch c h obj = (c', None) \<Longrightarrow> diff_fault c = None"
  by (cases "diff_fault c") (simp_all add: Patch_def)

lemma Get_Cluster_frame:
  "clusters c' = clusters c \<Longrightarrow> get_cluster_fault c' = get_cluster_fault c \<Longrightarrow>
   Get_Cluster c' = Get_Cluster c"
  by (rule ext) (simp add: Get_Cluster_def cong: option.case_cong)

lemma Reconcile_body_frame:
  assumes "clusters c' = clusters c" and "get_cluster_fault c' = get_cluster_fault c"
  shows "Reconcile_body K c' obj = Reconcile_body K c obj"
  unfolding Reconcile_body_def Get_Cluster_frame [OF assms] ..

lemma hook_not_prefix: "preTerminateAnnotation \<noteq> PreTerminateDeleteHookAnnotationPrefix"
  by (simp add: preTerminateAnnotation_def)

lemma reconcileNormal_idem:
  "reconcileNormal (fst (reconcileNormal obj cluster)) cluster = reconcileNormal obj cluster"
  by (simp add: reconcileNormal_eq map_index_def hook_not_prefix split: option.splits)

lemma reconcileMachineDeletionHook_idem:
  "reconcileMachineDeletionHook K (fst (reconcileMachineDeletionHook K obj cluster)) cluster =
   reconcileMachineDeletionHook K obj cluster"
  by (simp add: reconcileMachineDeletionHook_eq map_delete_def split: option.splits)

lemma Reconcile_body_idem:
  "Reconcile_body K c (fst (Reconcile_body K c obj)) = Reconcile_body K c obj"
proof (cases "map_index (Labels obj) ClusterLabelName")
  case None
  then show ?thesis by (simp add: Reconcile_body_eq)
next
  case (Some clusterName)
  show ?thesis
  proof (cases "Get_Cluster c (Namespace obj, clusterName)")
    case (Inl err)
    with Some show ?thesis by (simp add: Reconcile_body_eq)
  next
    case (Inr cluster)
    have n: "Labels (fst (reconcileNormal obj cluster)) = Labels obj"
      "Namespace (fst (reconcileNormal obj cluster)) = Namespace obj"
      by (simp_all add: reconcileNormal_eq)
    have d: "Labels (fst (reconcileMachineDeletionHook K obj cluster)) = Labels obj"
      "Namespace (fst (reconcileMachineDeletionHook K obj cluster)) = Namespace obj"
      by (simp_all add: reconcileMachineDeletionHook_eq)
    show ?thesis
    proof (cases "map_index (Labels cluster) (AviClusterLabel K) = None")
      case True
      with Some Inr show ?thesis by (simp add: Reconcile_body_eq)
    next
      case False
      show ?thesis
      proof (cases "IsZero (DeletionTimestamp cluster)")
        case True
        with Some Inr False have b: "Reconcile_body K c obj = reconcileNormal obj cluster"
          by (auto simp: Reconcile_body_eq)
        have "Reconcile_body K c (fst (reconcileNormal obj cluster)) =
            reconcileNormal (fst (reconcileNormal obj cluster)) cluster"
          using Some Inr False True by (auto simp: Reconcile_body_eq [of K c "fst _"] n)
        then show ?thesis by (simp add: b reconcileNormal_idem)
      next
        case notzero: False
        with Some Inr False
        have b: "Reconcile_body K c obj = reconcileMachineDeletionHook K obj cluster"
          by (auto simp: Reconcile_body_eq)
        have "Reconcile_body K c (fst (reconcileMachineDeletionHook K obj cluster)) =
            reconcileMachineDeletionHook K (fst (reconcileMachineDeletionHook K obj cluster)) cluster"
          using Some Inr False notzero by (auto simp: Reconcile_body_eq [of K c "fst _"] d)
        then show ?thesis by (simp add: b reconcileMachineDeletionHook_idem)
      qed
    qed
  qed
qed

lemmas cidr_defs = valid_cidr_def valid_ipv4_def valid_ipv6_def valid_octet_def valid_group_def
  group_width_def groups_of_def decimal_def digit_value_def

lemma deferred_patch_committed:
  "Patch c h obj' = (c1, None) \<Longrightarrow> deferred_patch c h (obj', out) = (c1, out)"
  by (cases out) (auto simp: deferred_patch_def)

lemma Patch_no_fault:
  assumes "Get_Machine c key = Inr obj" and "key_of obj' = key"
    and "diff_fault c = None" and "update_fault c = None"
  shows "\<exists>c'. Patch c h obj' = (c', None)"
proof -
  from assms(1,2) have "find (\<lambda>m. key_of m = key_of obj') (machines c) = Some obj"
    by (auto simp: Get_Machine_def split: option.splits)
  with assms(3,4) show ?thesis
    by (simp add: Patch_def Update_Machine_def Let_def)
qed

lemma Reconcile_twice:
  assumes get: "Get_Machine c (NamespacedName req) = Inr obj"
    and nf: "helper_fault c = None"
    and patch: "Patch c \<lparr>before = obj\<rparr> (fst (Reconcile_body K c obj)) = (c1, None)"
  shows "Reconcile K c req = (c1, snd (Reconcile_body K c obj))"
    and "Reconcile K c1 req = (c1, snd (Reconcile_body K c obj))"
    and "Get_Machine c1 (NamespacedName req) = Inr (fst (Reconcile_body K c obj))"
    and "Reconcile_body K c1 (fst (Reconcile_body K c obj)) = Reconcile_body K c obj"
proof -
  let ?obj' = "fst (Reconcile_body K c obj)"
  let ?out = "snd (Reconcile_body K c obj)"
  have helper: "NewHelper c obj = Inr \<lparr>before = obj\<rparr>"
    using nf by (simp add: NewHelper_def)
  have "deferred_patch c \<lparr>before = obj\<rparr> (Reconcile_body K c obj) = (c1, ?out)"
    using deferred_patch_committed [OF patch, of ?out] by simp
  then show first: "Reconcile K c req = (c1, ?out)"
    by (simp add: Reconcile_def get helper)
  have key: "key_of ?obj' = NamespacedName req"
    using Reconcile_body_key [of K c obj] Get_Machine_key [OF get] by simp
  show get1: "Get_Machine c1 (NamespacedName req) = Inr ?obj'"
    by (rule Patch_stored [OF get key patch])
  from Patch_frame [OF patch]
  have frame: "clusters c1 = clusters c" "get_cluster_fault c1 = get_cluster_fault c"
    and nf1: "helper_fault c1 = None" and df1: "diff_fault c1 = None"
    using nf Patch_success_no_fault [OF patch] by simp_all
  show body1: "Reconcile_body K c1 ?obj' = Reconcile_body K c obj"
    by (simp add: Reconcile_body_frame [OF frame] Reconcile_body_idem)
  have helper1: "NewHelper c1 ?obj' = Inr \<lparr>before = ?obj'\<rparr>"
    using nf1 by (simp add: NewHelper_def)
  have patch1: "Patch c1 \<lparr>before = ?obj'\<rparr> ?obj' = (c1, None)"
    using df1 by (simp add: Patch_def diff_empty_iff)
  have "deferred_patch c1 \<lparr>before = ?obj'\<rparr> (Reconcile_body K c1 ?obj') = (c1, ?out)"
    using deferred_patch_committed [OF patch1, of ?out] by (simp add: body1)
  then show "Reconcile K c1 req = (c1, ?out)"
    by (simp add: Reconcile_def get1 helper1)
qed

lemma split_on_no_sep: "sep \<notin> set s \<Longrightarrow> split_on sep s = [s]"
  by (induction s) auto

lemma valid_cidr_slash: "valid_cidr s \<Longrightarrow> CHR ''/'' \<in> set s"
proof (rule ccontr)
  assume v: "valid_cidr s" and n: "CHR ''/'' \<notin> set s"
  from n have "split_on CHR ''/'' s = [s]" by (rule split_on_no_sep)
  with v show False by (simp add: valid_cidr_def)
qed

lemma find_invalid_None:
  "find (\<lambda>cidr. \<not> valid_cidr cidr) xs = None \<longleftrightarrow> list_all valid_cidr xs"
  by (induction xs) auto

lemma RenderManifest_eq:
  "RenderManifest T config n =
     (if \<not> valid_cidr (CIDR (DataNetwork config))
      then Inl (ValidationError ''spec.dataNetwork.cidr'' (CIDR (DataNetwork config)))
      else if list_all valid_cidr (node_cidrs config) then Inr (T config n)
      else Inl (ValidationError ''spec.extraConfigs.ingress.nodeNetworkList.cidrs''
                 (the (find (\<lambda>cidr. \<not> valid_cidr cidr) (node_cidrs config)))))"
proof (cases "find (\<lambda>cidr. \<not> valid_cidr cidr) (node_cidrs config)")
  case None
  then show ?thesis using find_invalid_None [of "node_cidrs config"]
    by (simp add: RenderManifest_def)
next
  case (Some cidr)
  then show ?thesis using find_invalid_None [of "node_cidrs config"]
    by (simp add: RenderManifest_def)
qed

lemma valid_cidr_test: "\<not> valid_cidr ''test''"
  by (simp add: cidr_defs)

lemma valid_cidr_10: "valid_cidr ''10.0.0.0/24''"
  by (simp add: cidr_defs)

lemma set_DataNetwork_CIDR_simps:
  "CIDR (DataNetwork (Spec (set_DataNetwork_CIDR cidr obj))) = cidr"
  "node_cidrs (Spec (set_DataNetwork_CIDR cidr obj)) = node_cidrs (Spec obj)"
  by (simp_all add: set_DataNetwork_CIDR_def node_cidrs_def)

lemma split_on_nonempty: "split_on sep s \<noteq> []"
  by (induction s) (auto split: list.splits)

lemma split_on_one: "split_on sep s = [b] \<Longrightarrow> s = b \<and> sep \<notin> set b"
proof (induction s arbitrary: b)
  case Nil
  then show ?case by simp
next
  case (Cons ch s)
  show ?case
  proof (cases "ch = sep")
    case True
    with Cons.prems show ?thesis by (simp add: split_on_nonempty)
  next
    case False
    with Cons.prems obtain w where "split_on sep s = [w]" "b = ch # w"
      by (auto simp: split_on_nonempty split: list.splits)
    with Cons.IH [of w] False show ?thesis by simp
  qed
qed

lemma split_on_two:
  "split_on sep s = [a, b] \<Longrightarrow> s = a @ sep # b \<and> sep \<notin> set a \<and> sep \<notin> set b"
proof (induction s arbitrary: a)
  case Nil
  then show ?case by simp
next
  case (Cons ch s)
  show ?case
  proof (cases "ch = sep")
    case True
    with Cons.prems have "a = []" "split_on sep s = [b]" by simp_all
    with split_on_one [of sep s b] True show ?thesis by simp
  next
    case False
    with Cons.prems obtain w where "split_on sep s = [w, b]" "a = ch # w"
      by (auto simp: split_on_nonempty split: list.splits)
    with Cons.IH [of w] False show ?thesis by simp
  qed
qed

lemma valid_cidr_shape:
  assumes "valid_cidr s"
  shows "\<exists>address plen n. s = address @ ''/'' @ plen \<and> CHR ''/'' \<notin> set address \<and>
           decimal plen = Some n \<and>
           (valid_ipv4 address \<and> n \<le> 32 \<or> valid_ipv6 address \<and> n \<le> 128)"
proof -
  from assms obtain address plen where sp: "split_on CHR ''/'' s = [address, plen]"
    by (auto simp: valid_cidr_def split: list.splits)
  with assms obtain n where n: "decimal plen = Some n"
    "valid_ipv4 address \<and> n \<le> 32 \<or> valid_ipv6 address \<and> n \<le> 128"
    by (auto simp: valid_cidr_def split: option.splits)
  from split_on_two [OF sp] n show ?thesis by auto
qed

section \<open>The deferred patch\<close>

text \<open>
  C1, as the code has it. When the deferred patch fails, its error is the result of
  \<open>Reconcile\<close> exactly when the decision logic has returned no error; when the decision
  logic has returned an error of its own, that error is the result and the failure of the
  patch is only logged.
\<close>

theorem Reconcile_patch_failure:
  assumes "Get_Machine c (NamespacedName req) = Inr obj"
    and "NewHelper c obj = Inr h"
    and "Reconcile_body K c obj = (obj', Inr (res, reterr))"
    and "Patch c h obj' = (c', Some err)"
  shows "Reconcile K c req =
           (c', Inr (res, case reterr of None \<Rightarrow> Some err | Some e \<Rightarrow> Some e))"
  using assms by (cases reterr) (simp_all add: Reconcile_def deferred_patch_def)

text \<open>
  The machine is fetched, the read of its cluster fails and the patch fails as well:
  \<open>Reconcile\<close> returns the error of the read, not the failure of the patch.
\<close>

theorem Reconcile_commit_failure_counterexample:
  "Reconcile_body ex_K ex_faulty (ex_machine None) =
     (ex_machine None, Inr (Result_zero, Some (Failure ''cluster read''))) \<and>
   Patch ex_faulty \<lparr>before = ex_machine None\<rparr> (ex_machine None) =
     (ex_faulty, Some (Failure ''patch'')) \<and>
   Reconcile ex_K ex_faulty ex_req =
     (ex_faulty, Inr (Result_zero, Some (Failure ''cluster read'')))"
  by (simp add: ex_faulty_def ex_defs go_defs store_defs ctl_defs)

text \<open>The decision logic succeeds and the patch fails: the failure of the patch is returned.\<close>

theorem Reconcile_patch_failure_witness:
  "Get_Machine ex_patch_faulty (NamespacedName ex_req) = Inr (ex_machine None) \<and>
   NewHelper ex_patch_faulty (ex_machine None) = Inr \<lparr>before = ex_machine None\<rparr> \<and>
   Reconcile_body ex_K ex_patch_faulty (ex_machine None) =
     (ex_machine None, Inr (Result_zero, None)) \<and>
   Patch ex_patch_faulty \<lparr>before = ex_machine None\<rparr> (ex_machine None) =
     (ex_patch_faulty, Some (Failure ''patch'')) \<and>
   Reconcile ex_K ex_patch_faulty ex_req =
     (ex_patch_faulty, Inr (Result_zero, Some (Failure ''patch'')))"
proof -
  have g: "Get_Machine ex_patch_faulty (NamespacedName ex_req) = Inr (ex_machine None)"
    by (simp add: ex_patch_faulty_def ex_defs go_defs store_defs)
  have h: "NewHelper ex_patch_faulty (ex_machine None) = Inr \<lparr>before = ex_machine None\<rparr>"
    by (simp add: ex_patch_faulty_def ex_defs store_defs)
  have b: "Reconcile_body ex_K ex_patch_faulty (ex_machine None) =
     (ex_machine None, Inr (Result_zero, None))"
    by (simp add: ex_patch_faulty_def ex_defs go_defs store_defs ctl_defs)
  have p: "Patch ex_patch_faulty \<lparr>before = ex_machine None\<rparr> (ex_machine None) =
     (ex_patch_faulty, Some (Failure ''patch''))"
    by (simp add: ex_patch_faulty_def ex_defs store_defs)
  from Reconcile_patch_failure [OF g h b p] g h b p show ?thesis by simp
qed

section \<open>The state table\<close>

text \<open>
  C2, at the input where the code departs from the table. The cluster is in scope and is
  not being deleted, and the only annotation of the machine is keyed by the bare
  pre-terminate prefix. \<open>Reconcile\<close> succeeds, issues no update, and the hook is absent
  from the machine afterwards as it was before: the first row of the table asks for the
  hook to be added.
\<close>

theorem Reconcile_bare_prefix_no_hook:
  "in_scope ex_K ex_bare_prefix ex_req
     (ex_machine (Some (fmupd PreTerminateDeleteHookAnnotationPrefix ''x'' fmempty)))
     (ex_cluster ex_avi None []) \<and>
   \<not> deleting (ex_cluster ex_avi None []) \<and>
   Reconcile ex_K ex_bare_prefix ex_req = (ex_bare_prefix, Inr (Result_zero, None)) \<and>
   Get_Machine ex_bare_prefix (NamespacedName ex_req) =
     Inr (ex_machine (Some (fmupd PreTerminateDeleteHookAnnotationPrefix ''x'' fmempty))) \<and>
   \<not> hookPresent (ex_machine (Some (fmupd PreTerminateDeleteHookAnnotationPrefix ''x'' fmempty)))"
  by (simp add: ex_bare_prefix_def in_scope_def owner_of_def deleting_def hookPresent_def
      ex_defs go_defs store_defs ctl_defs)

section \<open>Idempotence\<close>

text \<open>
  C3, as the code has it. Take two calls of \<open>Reconcile\<close> with the same request and no
  change to the store between them. When the first call returns without an error, or
  when the patch transaction of the store does not fail (neither the creation of the
  helper, nor the computation of the difference, nor the update), the second call
  returns what the first call returned and leaves the store exactly as the first call has
  left it: the machine keeps its annotations and no update request is issued. The
  difference that the second call's patch computes, between the machine it reads and the
  machine its decision logic leaves, is empty.
\<close>

theorem Reconcile_idempotent:
  assumes run: "Reconcile K c req = (c1, out)"
    and committed: "out = Inr (res, None) \<or>
                    helper_fault c = None \<and> diff_fault c = None \<and> update_fault c = None"
  shows "Reconcile K c1 req = (c1, out) \<and>
         (\<forall>obj1. Get_Machine c1 (NamespacedName req) = Inr obj1 \<longrightarrow>
            diff obj1 (fst (Reconcile_body K c1 obj1)) = [])"
proof (cases "Get_Machine c (NamespacedName req)")
  case (Inl e)
  with run have "c1 = c"
    by (auto simp: Reconcile_def split: if_splits)
  with run Inl show ?thesis by simp
next
  case (Inr obj)
  let ?obj' = "fst (Reconcile_body K c obj)"
  have "helper_fault c = None \<and> Patch c \<lparr>before = obj\<rparr> ?obj' = (c1, None)"
    using committed
  proof
    assume "out = Inr (res, None)"
    with run Reconcile_success_patch [OF Inr, of K c1 res] show ?thesis by simp
  next
    assume nofault: "helper_fault c = None \<and> diff_fault c = None \<and> update_fault c = None"
    have key: "key_of ?obj' = NamespacedName req"
      using Reconcile_body_key [of K c obj] Get_Machine_key [OF Inr] by simp
    from nofault have hf: "helper_fault c = None" and df: "diff_fault c = None"
      and uf: "update_fault c = None" by simp_all
    from Patch_no_fault [OF Inr key df uf]
    obtain c' where p: "Patch c \<lparr>before = obj\<rparr> ?obj' = (c', None)" ..
    from Reconcile_twice(1) [OF Inr hf p] run have "c1 = c'" by simp
    with p hf show ?thesis by simp
  qed
  then have nf: "helper_fault c = None"
    and patch: "Patch c \<lparr>before = obj\<rparr> ?obj' = (c1, None)" by simp_all
  note twice = Reconcile_twice [OF Inr nf patch]
  from twice(1) run have out: "out = snd (Reconcile_body K c obj)" by simp
  have "Reconcile K c1 req = (c1, out)"
    using twice(2) out by simp
  moreover have "diff obj1 (fst (Reconcile_body K c1 obj1)) = []"
    if "Get_Machine c1 (NamespacedName req) = Inr obj1" for obj1
    using that twice(3,4) by (simp add: diff_empty_iff)
  ultimately show ?thesis by blast
qed

text \<open>
  The store rejects the update of the first call: the call returns that error and the
  machine in the store still has no hook. The second call therefore computes a
  difference in the annotations and issues a second update request.
\<close>

theorem Reconcile_idempotent_counterexample:
  "snd (Reconcile ex_K ex_update_faulty ex_req) = Inr (Result_zero, Some (Failure ''boom'')) \<and>
   Get_Machine (fst (Reconcile ex_K ex_update_faulty ex_req)) (NamespacedName ex_req) =
     Inr (ex_machine None) \<and>
   diff (ex_machine None)
     (fst (Reconcile_body ex_K (fst (Reconcile ex_K ex_update_faulty ex_req)) (ex_machine None))) =
     [FAnnotations] \<and>
   updates (fst (Reconcile ex_K ex_update_faulty ex_req)) =
     [ex_machine (Some (fmupd preTerminateAnnotation ''ako-operator'' fmempty))] \<and>
   updates (fst (Reconcile ex_K (fst (Reconcile ex_K ex_update_faulty ex_req)) ex_req)) =
     [ex_machine (Some (fmupd preTerminateAnnotation ''ako-operator'' fmempty)),
      ex_machine (Some (fmupd preTerminateAnnotation ''ako-operator'' fmempty))]"
  by (simp add: ex_update_faulty_def ex_defs go_defs store_defs ctl_defs)

text \<open>
  A first call that adds the hook with one update request and succeeds, and a first call
  that returns an error because the cluster is missing, on a store without faults.
\<close>

theorem Reconcile_idempotent_witness:
  "snd (Reconcile ex_K ex_nil ex_req) = Inr (Result_zero, None) \<and>
   updates (fst (Reconcile ex_K ex_nil ex_req)) =
     [ex_machine (Some (fmupd preTerminateAnnotation ''ako-operator'' fmempty))] \<and>
   Reconcile ex_K (fst (Reconcile ex_K ex_nil ex_req)) ex_req =
     (fst (Reconcile ex_K ex_nil ex_req), Inr (Result_zero, None)) \<and>
   helper_fault ex_orphan = None \<and> diff_fault ex_orphan = None \<and>
   update_fault ex_orphan = None \<and>
   Reconcile ex_K ex_orphan ex_req = (ex_orphan, Inr (Result_zero, Some NotFound))"
proof -
  have r: "snd (Reconcile ex_K ex_nil ex_req) = Inr (Result_zero, None)"
    and u: "updates (fst (Reconcile ex_K ex_nil ex_req)) =
     [ex_machine (Some (fmupd preTerminateAnnotation ''ako-operator'' fmempty))]"
    by (simp_all add: ex_nil_def ex_defs go_defs store_defs ctl_defs)
  from r have r': "Reconcile ex_K ex_nil ex_req =
      (fst (Reconcile ex_K ex_nil ex_req), Inr (Result_zero, None))"
    by (metis prod.collapse)
  have "Inr (Result_zero, None) = (Inr (Result_zero, None) :: outcome) \<or>
      helper_fault ex_nil = None \<and> diff_fault ex_nil = None \<and> update_fault ex_nil = None"
    by simp
  from Reconcile_idempotent [OF r' this]
  have first: "Reconcile ex_K (fst (Reconcile ex_K ex_nil ex_req)) ex_req =
     (fst (Reconcile ex_K ex_nil ex_req), Inr (Result_zero, None))" by blast
  have f: "helper_fault ex_orphan = None" "diff_fault ex_orphan = None"
    "update_fault ex_orphan = None"
    by (simp_all add: ex_orphan_def ex_client_def)
  have o: "Reconcile ex_K ex_orphan ex_req = (ex_orphan, Inr (Result_zero, Some NotFound))"
    by (simp add: ex_orphan_def ex_defs go_defs store_defs ctl_defs)
  from f have "Inr (Result_zero, Some NotFound) = (Inr (Result_zero, None) :: outcome) \<or>
      helper_fault ex_orphan = None \<and> diff_fault ex_orphan = None \<and>
      update_fault ex_orphan = None"
    by simp
  from Reconcile_idempotent [OF o this]
  have second: "Reconcile ex_K ex_orphan ex_req = (ex_orphan, Inr (Result_zero, Some NotFound))"
    by blast
  from r u first f second show ?thesis by (intro conjI)
qed

section \<open>The hook and the cleanup of the owner\<close>

text \<open>
  The cluster is being deleted and still has the finalizer, and the machine has no hook:
  \<open>Reconcile\<close> succeeds and changes nothing, so the hook is absent although the cluster
  is not in the state "deleting without the finalizer".
\<close>

theorem Reconcile_hook_tracks_owner_counterexample:
  "in_scope ex_K ex_cleaning_up ex_req (ex_machine None)
     (ex_cluster ex_avi (Some 1600000000) [ClusterFinalizer ex_K]) \<and>
   Reconcile ex_K ex_cleaning_up ex_req = (ex_cleaning_up, Inr (Result_zero, None)) \<and>
   Get_Machine ex_cleaning_up (NamespacedName ex_req) = Inr (ex_machine None) \<and>
   \<not> hookPresent (ex_machine None) \<and>
   \<not> (deleting (ex_cluster ex_avi (Some 1600000000) [ClusterFinalizer ex_K]) \<and>
      \<not> finalizerPresent ex_K (ex_cluster ex_avi (Some 1600000000) [ClusterFinalizer ex_K]))"
  by (simp add: ex_cleaning_up_def in_scope_def owner_of_def deleting_def hookPresent_def
      finalizerPresent_def ex_defs go_defs store_defs ctl_defs)

text \<open>
  C4, as the code has it. After a successful \<open>Reconcile\<close> of a machine in scope: when
  the cluster is being deleted and no longer has the finalizer, the hook is absent; when
  the cluster is being deleted and still has the finalizer, the machine is as it was, so
  the hook is present exactly if it was already; when the cluster is not being deleted,
  the hook is present, provided the machine carried the hook already or has no annotation
  keyed by the bare prefix.
\<close>

theorem Reconcile_hook_tracks_owner:
  assumes "in_scope K c req obj cluster"
    and "Reconcile K c req = (c', Inr (res, None))"
  shows "\<exists>obj'. Get_Machine c' (NamespacedName req) = Inr obj' \<and>
           (deleting cluster \<and> \<not> finalizerPresent K cluster \<longrightarrow> \<not> hookPresent obj') \<and>
           (deleting cluster \<and> finalizerPresent K cluster \<longrightarrow> obj' = obj) \<and>
           (\<not> deleting cluster \<and>
            (hookPresent obj \<or>
             map_index (Annotations obj) PreTerminateDeleteHookAnnotationPrefix = None) \<longrightarrow>
              hookPresent obj')"
proof -
  let ?obj' = "fst (Reconcile_body K c obj)"
  from assms(1) have get: "Get_Machine c (NamespacedName req) = Inr obj"
    by (simp add: in_scope_def)
  note body = Reconcile_body_in_scope [OF assms(1)]
  from Reconcile_success_state [OF get assms(2)]
  have stored: "Get_Machine c' (NamespacedName req) = Inr ?obj'" by simp
  have gone: "\<not> hookPresent ?obj'" if "deleting cluster" "\<not> finalizerPresent K cluster"
  proof (cases "HasWithPrefix PreTerminateDeleteHookAnnotationPrefix (Annotations obj)")
    case True
    with that show ?thesis
      by (simp add: body deleting_def finalizerPresent_def reconcileMachineDeletionHook_eq
          hookPresent_def map_delete_same)
  next
    case False
    then have "map_index (Annotations obj) preTerminateAnnotation = None"
      using hook_HasWithPrefix by blast
    with that False show ?thesis
      by (simp add: body deleting_def finalizerPresent_def reconcileMachineDeletionHook_eq
          hookPresent_def)
  qed
  have wait: "?obj' = obj" if "deleting cluster" "finalizerPresent K cluster"
    using that
    by (simp add: body deleting_def finalizerPresent_def reconcileMachineDeletionHook_eq)
  have added: "hookPresent ?obj'"
    if "\<not> deleting cluster"
      "hookPresent obj \<or> map_index (Annotations obj) PreTerminateDeleteHookAnnotationPrefix = None"
    using that
    by (auto simp: body deleting_def reconcileNormal_eq hookPresent_def map_index_def)
  show ?thesis
  proof (intro exI [of _ ?obj'] conjI impI)
    show "Get_Machine c' (NamespacedName req) = Inr ?obj'" by (rule stored)
  qed (use gone wait added in blast)+
qed

text \<open>A machine that carries the hook, and a cluster that has finished its cleanup.\<close>

theorem Reconcile_hook_tracks_owner_witness:
  "in_scope ex_K ex_cleaned_up ex_req
     (ex_machine (Some (fmupd ex_other_hook ''other-operator''
                          (fmupd preTerminateAnnotation ''ako-operator'' fmempty))))
     (ex_cluster ex_avi (Some 1600000000) []) \<and>
   hookPresent (ex_machine (Some (fmupd ex_other_hook ''other-operator''
                          (fmupd preTerminateAnnotation ''ako-operator'' fmempty)))) \<and>
   snd (Reconcile ex_K ex_cleaned_up ex_req) = Inr (Result_zero, None) \<and>
   (\<exists>obj'. Get_Machine (fst (Reconcile ex_K ex_cleaned_up ex_req)) (NamespacedName ex_req) =
              Inr obj' \<and> \<not> hookPresent obj')"
proof -
  let ?m = "ex_machine (Some (fmupd ex_other_hook ''other-operator''
                          (fmupd preTerminateAnnotation ''ako-operator'' fmempty)))"
  let ?cl = "ex_cluster ex_avi (Some 1600000000) []"
  have s: "in_scope ex_K ex_cleaned_up ex_req ?m ?cl"
    by (simp add: ex_cleaned_up_def in_scope_def owner_of_def ex_defs go_defs store_defs)
  have h: "hookPresent ?m"
    by (simp add: hookPresent_def ex_other_hook_def ex_defs go_defs)
  have d: "deleting ?cl \<and> \<not> finalizerPresent ex_K ?cl"
    by (simp add: deleting_def finalizerPresent_def ContainsFinalizer_def ex_cluster_def)
  have r: "snd (Reconcile ex_K ex_cleaned_up ex_req) = Inr (Result_zero, None)"
    by (simp add: ex_cleaned_up_def ex_other_hook_def ex_defs go_defs store_defs ctl_defs)
  then have r': "Reconcile ex_K ex_cleaned_up ex_req =
      (fst (Reconcile ex_K ex_cleaned_up ex_req), Inr (Result_zero, None))"
    by (metis prod.collapse)
  from Reconcile_hook_tracks_owner [OF s r'] d
  have "\<exists>obj'. Get_Machine (fst (Reconcile ex_K ex_cleaned_up ex_req)) (NamespacedName ex_req) =
              Inr obj' \<and> \<not> hookPresent obj'"
    by blast
  with s h r show ?thesis by (intro conjI)
qed

section \<open>Clusters without the load-balancer label\<close>

text \<open>
  C5, as the code has it. When the cluster of the machine lacks the label
  \<open>AviClusterLabel\<close>, whatever its deletion timestamp and its finalizers, the decision
  logic returns no error and leaves the machine as it is, and \<open>Reconcile\<close> leaves the
  store as it is and issues no update. \<open>Reconcile\<close> returns no error unless the patch
  helper cannot be created or the deferred patch fails; it then returns that error.
\<close>

theorem Reconcile_out_of_scope:
  assumes "Get_Machine c (NamespacedName req) = Inr obj"
    and "owner_of c obj cluster"
    and "map_index (Labels cluster) (AviClusterLabel K) = None"
  shows "Reconcile_body K c obj = (obj, Inr (Result_zero, None)) \<and>
         Reconcile K c req =
           (c, Inr (Result_zero,
                 case helper_fault c of
                   Some e \<Rightarrow> Some (Wrapf e ''failed to init patch helper for %s %s''
                        [GroupVersionKind obj, NamespacedName_String (NamespacedName req)])
                 | None \<Rightarrow> diff_fault c))"
proof -
  from assms(2,3) have body: "Reconcile_body K c obj = (obj, Inr (Result_zero, None))"
    by (auto simp: owner_of_def Reconcile_body_eq split: option.splits)
  have patch: "Patch c \<lparr>before = obj\<rparr> obj = (c, diff_fault c)"
    by (simp add: Patch_def diff_empty_iff split: option.splits)
  show ?thesis
  proof (cases "helper_fault c")
    case None
    then have "NewHelper c obj = Inr \<lparr>before = obj\<rparr>" by (simp add: NewHelper_def)
    with body patch None assms(1) show ?thesis
      by (cases "diff_fault c") (simp_all add: Reconcile_def deferred_patch_def)
  next
    case (Some e)
    then have "NewHelper c obj = Inl e" by (simp add: NewHelper_def)
    with body Some assms(1) show ?thesis by (simp add: Reconcile_def)
  qed
qed

text \<open>
  The cluster lacks the label and the deferred patch fails: \<open>Reconcile\<close> returns the
  failure of the patch, not success.
\<close>

theorem Reconcile_out_of_scope_counterexample:
  "Get_Machine ex_patch_faulty (NamespacedName ex_req) = Inr (ex_machine None) \<and>
   owner_of ex_patch_faulty (ex_machine None) (ex_cluster None None []) \<and>
   map_index (Labels (ex_cluster None None [])) (AviClusterLabel ex_K) = None \<and>
   Reconcile ex_K ex_patch_faulty ex_req =
     (ex_patch_faulty, Inr (Result_zero, Some (Failure ''patch'')))"
  by (simp add: ex_patch_faulty_def owner_of_def ex_defs go_defs store_defs ctl_defs)

text \<open>
  A cluster without the label that is being deleted and has no finalizer, and a machine
  that carries the hook: nothing is changed and no error is returned.
\<close>

theorem Reconcile_out_of_scope_witness:
  "Get_Machine ex_out_of_scope (NamespacedName ex_req) =
     Inr (ex_machine (Some (fmupd preTerminateAnnotation ''ako-operator'' fmempty))) \<and>
   owner_of ex_out_of_scope
     (ex_machine (Some (fmupd preTerminateAnnotation ''ako-operator'' fmempty)))
     (ex_cluster None (Some 1600000000) []) \<and>
   map_index (Labels (ex_cluster None (Some 1600000000) [])) (AviClusterLabel ex_K) = None \<and>
   Reconcile ex_K ex_out_of_scope ex_req = (ex_out_of_scope, Inr (Result_zero, None))"
proof -
  let ?m = "ex_machine (Some (fmupd preTerminateAnnotation ''ako-operator'' fmempty))"
  let ?cl = "ex_cluster None (Some 1600000000) []"
  have g: "Get_Machine ex_out_of_scope (NamespacedName ex_req) = Inr ?m"
    by (simp add: ex_out_of_scope_def ex_defs go_defs store_defs)
  have o: "owner_of ex_out_of_scope ?m ?cl"
    by (simp add: ex_out_of_scope_def owner_of_def ex_defs go_defs store_defs)
  have l: "map_index (Labels ?cl) (AviClusterLabel ex_K) = None"
    by (simp add: ex_defs go_defs)
  have f: "helper_fault ex_out_of_scope = None" "diff_fault ex_out_of_scope = None"
    by (simp_all add: ex_out_of_scope_def ex_defs)
  from Reconcile_out_of_scope [where K = ex_K, OF g o l] g o l f show ?thesis by simp
qed

section \<open>Reading the machine: missing and unreadable machines\<close>

text \<open>
  C6. When the machine is not in the store, or the read reports not-found, \<open>Reconcile\<close>
  returns the zero result with no error and leaves the store as it was, its record of
  update requests included; any other error of the read is returned as it is, again
  without a write.
\<close>

theorem Reconcile_machine_read_error:
  assumes "Get_Machine c (NamespacedName req) = Inl e"
  shows "Reconcile K c req = (c, Inr (Result_zero, if IsNotFound e then None else Some e))"
  using assms by (simp add: Reconcile_def)

theorem Reconcile_machine_read_error_witness:
  "Get_Machine (ex_client [] []) (NamespacedName ex_req) = Inl NotFound \<and>
   Reconcile ex_K (ex_client [] []) ex_req = (ex_client [] [], Inr (Result_zero, None)) \<and>
   Get_Machine ((ex_client [] [])\<lparr>get_machine_fault := Some (Failure ''timeout'')\<rparr>)
     (NamespacedName ex_req) = Inl (Failure ''timeout'') \<and>
   Reconcile ex_K ((ex_client [] [])\<lparr>get_machine_fault := Some (Failure ''timeout'')\<rparr>) ex_req =
     ((ex_client [] [])\<lparr>get_machine_fault := Some (Failure ''timeout'')\<rparr>,
      Inr (Result_zero, Some (Failure ''timeout'')))"
  using Reconcile_machine_read_error [of "ex_client [] []" ex_req NotFound ex_K]
    Reconcile_machine_read_error
      [of "(ex_client [] [])\<lparr>get_machine_fault := Some (Failure ''timeout'')\<rparr>"
          ex_req "Failure ''timeout''" ex_K]
  by (simp add: Get_Machine_def ex_client_def)

section \<open>Rendering and the data-network CIDR\<close>

text \<open>
  C7. For every configuration, template and name of the management cluster: when the
  data-network CIDR is set to the string \<open>test\<close>, rendering fails with a validation error
  that names that field, and gives no output; when the CIDR of the same configuration is
  set to \<open>10.0.0.0/24\<close> and the node-network ranges are valid, rendering succeeds with the
  output of the template. More generally, a data-network CIDR without a slash is always
  refused; rendering succeeds exactly when the data-network CIDR and all node-network
  ranges are valid; and whenever it succeeds the data-network CIDR is an IPv4 or IPv6
  address, one slash and a decimal prefix length within the width of the address.
\<close>

theorem ConvertToAKODeploymentYaml_validates_cidr:
  "ConvertToAKODeploymentYaml T n (set_DataNetwork_CIDR ''test'' obj) =
     Inl (ValidationError ''spec.dataNetwork.cidr'' ''test'') \<and>
   (list_all valid_cidr (node_cidrs (Spec obj)) \<longrightarrow>
      ConvertToAKODeploymentYaml T n (set_DataNetwork_CIDR ''10.0.0.0/24'' obj) =
        Inr (T (Spec (set_DataNetwork_CIDR ''10.0.0.0/24'' obj)) n)) \<and>
   (CHR ''/'' \<notin> set (CIDR (DataNetwork (Spec obj))) \<longrightarrow>
      ConvertToAKODeploymentYaml T n obj =
        Inl (ValidationError ''spec.dataNetwork.cidr'' (CIDR (DataNetwork (Spec obj))))) \<and>
   ((\<exists>out. ConvertToAKODeploymentYaml T n obj = Inr out) \<longleftrightarrow>
      valid_cidr (CIDR (DataNetwork (Spec obj))) \<and> list_all valid_cidr (node_cidrs (Spec obj))) \<and>
   ((\<exists>out. ConvertToAKODeploymentYaml T n obj = Inr out) \<longrightarrow>
      (\<exists>address plen k.
         CIDR (DataNetwork (Spec obj)) = address @ ''/'' @ plen \<and>
         CHR ''/'' \<notin> set address \<and> decimal plen = Some k \<and>
         (valid_ipv4 address \<and> k \<le> 32 \<or> valid_ipv6 address \<and> k \<le> 128)))"
proof (intro conjI impI)
  show "ConvertToAKODeploymentYaml T n (set_DataNetwork_CIDR ''test'' obj) =
     Inl (ValidationError ''spec.dataNetwork.cidr'' ''test'')"
    by (simp add: ConvertToAKODeploymentYaml_def RenderManifest_eq set_DataNetwork_CIDR_simps
        valid_cidr_test)
next
  assume "list_all valid_cidr (node_cidrs (Spec obj))"
  then show "ConvertToAKODeploymentYaml T n (set_DataNetwork_CIDR ''10.0.0.0/24'' obj) =
        Inr (T (Spec (set_DataNetwork_CIDR ''10.0.0.0/24'' obj)) n)"
    by (simp add: ConvertToAKODeploymentYaml_def RenderManifest_eq set_DataNetwork_CIDR_simps
        valid_cidr_10)
next
  assume "CHR ''/'' \<notin> set (CIDR (DataNetwork (Spec obj)))"
  then have "\<not> valid_cidr (CIDR (DataNetwork (Spec obj)))"
    using valid_cidr_slash by blast
  then show "ConvertToAKODeploymentYaml T n obj =
        Inl (ValidationError ''spec.dataNetwork.cidr'' (CIDR (DataNetwork (Spec obj))))"
    by (simp add: ConvertToAKODeploymentYaml_def RenderManifest_eq)
next
  show "(\<exists>out. ConvertToAKODeploymentYaml T n obj = Inr out) \<longleftrightarrow>
      valid_cidr (CIDR (DataNetwork (Spec obj))) \<and> list_all valid_cidr (node_cidrs (Spec obj))"
    by (simp add: ConvertToAKODeploymentYaml_def RenderManifest_eq)
next
  assume "\<exists>out. ConvertToAKODeploymentYaml T n obj = Inr out"
  then have "valid_cidr (CIDR (DataNetwork (Spec obj)))"
    by (simp add: ConvertToAKODeploymentYaml_def RenderManifest_eq split: if_splits)
  then show "\<exists>address plen k.
         CIDR (DataNetwork (Spec obj)) = address @ ''/'' @ plen \<and>
         CHR ''/'' \<notin> set address \<and> decimal plen = Some k \<and>
         (valid_ipv4 address \<and> k \<le> 32 \<or> valid_ipv6 address \<and> k \<le> 128)"
    by (rule valid_cidr_shape)
qed


text \<open>
  The configuration of the unit test: with the CIDR \<open>test\<close> rendering fails; setting the
  CIDR back to \<open>10.0.0.0/24\<close> gives the original configuration, which renders.
\<close>

theorem ConvertToAKODeploymentYaml_validates_cidr_witness:
  "list_all valid_cidr (node_cidrs (Spec akoDeploymentConfig)) \<and>
   ConvertToAKODeploymentYaml ex_template ''test''
       (set_DataNetwork_CIDR ''test'' akoDeploymentConfig) =
     Inl (ValidationError ''spec.dataNetwork.cidr'' ''test'') \<and>
   set_DataNetwork_CIDR ''10.0.0.0/24'' (set_DataNetwork_CIDR ''test'' akoDeploymentConfig) =
     akoDeploymentConfig \<and>
   ConvertToAKODeploymentYaml ex_template ''test'' akoDeploymentConfig =
     Inr ''clusterName: test; cloudName: test-cloud; subnet: 10.0.0.0/24''"
proof -
  have v: "list_all valid_cidr (node_cidrs (Spec akoDeploymentConfig))"
    by (simp add: akoDeploymentConfig_def node_cidrs_def cidr_defs)
  have r: "set_DataNetwork_CIDR ''10.0.0.0/24'' akoDeploymentConfig = akoDeploymentConfig"
    "set_DataNetwork_CIDR ''10.0.0.0/24'' (set_DataNetwork_CIDR ''test'' akoDeploymentConfig) =
     akoDeploymentConfig"
    by (simp_all add: set_DataNetwork_CIDR_def akoDeploymentConfig_def)
  have t: "ex_template (Spec akoDeploymentConfig) ''test'' =
      ''clusterName: test; cloudName: test-cloud; subnet: 10.0.0.0/24''"
    by (simp add: ex_template_def akoDeploymentConfig_def)
  note inst = ConvertToAKODeploymentYaml_validates_cidr
      [of ex_template "''test''" akoDeploymentConfig]
  from inst have "ConvertToAKODeploymentYaml ex_template ''test''
       (set_DataNetwork_CIDR ''test'' akoDeploymentConfig) =
     Inl (ValidationError ''spec.dataNetwork.cidr'' ''test'')" by blast
  moreover from inst v have "ConvertToAKODeploymentYaml ex_template ''test''
       (set_DataNetwork_CIDR ''10.0.0.0/24'' akoDeploymentConfig) =
     Inr (ex_template (Spec (set_DataNetwork_CIDR ''10.0.0.0/24'' akoDeploymentConfig)) ''test'')"
    by blast
  ultimately show ?thesis using v r t by simp
qed

section \<open>Adding the hook\<close>


text \<open>
  Away from that input the function does what its documentation says. When no
  annotation is keyed by the bare prefix, the hook key is assigned \<open>''ako-operator''\<close>,
  after the map has been allocated if it was nil; and a machine whose hook key already
  maps to \<open>''ako-operator''\<close> is returned unchanged.
\<close>

lemma reconcileNormal_assigns:
  "(map_index (Annotations obj) PreTerminateDeleteHookAnnotationPrefix = None \<longrightarrow>
      reconcileNormal obj cluster =
        (obj\<lparr>Annotations :=
               Some (fmupd preTerminateAnnotation ''ako-operator''
                      (case Annotations obj of None \<Rightarrow> fmempty | Some f \<Rightarrow> f))\<rparr>,
         Inr (Result_zero, None)) \<and>
      map_index (Annotations (fst (reconcileNormal obj cluster))) preTerminateAnnotation =
        Some ''ako-operator'') \<and>
   (map_index (Annotations obj) preTerminateAnnotation = Some ''ako-operator'' \<longrightarrow>
      reconcileNormal obj cluster = (obj, Inr (Result_zero, None)))"
proof -
  have "obj\<lparr>Annotations := Some (fmupd preTerminateAnnotation ''ako-operator'' f)\<rparr> = obj"
    if "Annotations obj = Some f" "fmlookup f preTerminateAnnotation = Some ''ako-operator''" for f
    using that by (simp add: fmupd_same)
  then show ?thesis
    by (auto simp: reconcileNormal_eq map_index_def split: option.splits)
qed

section \<open>Removing the hook\<close>

text \<open>
  C9. When the cluster of a machine in scope is being deleted and no longer has the
  finalizer, a successful \<open>Reconcile\<close> leaves in the store a machine that differs from
  the one it read in its annotations at most, and there in the hook key at most: every
  other annotation is as it was. The hook key is removed as soon as some annotation
  key starts with the pre-terminate prefix, whoever set it; when no key does, the machine
  is unchanged.
\<close>

theorem Reconcile_deletes_only_own_hook:
  assumes "in_scope K c req obj cluster"
    and "deleting cluster"
    and "\<not> finalizerPresent K cluster"
    and "Reconcile K c req = (c', Inr (res, None))"
  shows "\<exists>obj'. Get_Machine c' (NamespacedName req) = Inr obj' \<and>
           obj' = obj\<lparr>Annotations := Annotations obj'\<rparr> \<and>
           (\<forall>k. k \<noteq> preTerminateAnnotation \<longrightarrow>
                 map_index (Annotations obj') k = map_index (Annotations obj) k) \<and>
           (HasWithPrefix PreTerminateDeleteHookAnnotationPrefix (Annotations obj) \<longrightarrow>
              map_index (Annotations obj') preTerminateAnnotation = None) \<and>
           (\<not> HasWithPrefix PreTerminateDeleteHookAnnotationPrefix (Annotations obj) \<longrightarrow>
              obj' = obj)"
proof -
  from assms(1) have get: "Get_Machine c (NamespacedName req) = Inr obj"
    by (simp add: in_scope_def)
  have body: "fst (Reconcile_body K c obj) =
      (if HasWithPrefix PreTerminateDeleteHookAnnotationPrefix (Annotations obj)
       then obj\<lparr>Annotations := map_delete (Annotations obj) preTerminateAnnotation\<rparr>
       else obj)"
    using assms(2,3)
    by (simp add: Reconcile_body_in_scope [OF assms(1)] deleting_def finalizerPresent_def
        reconcileMachineDeletionHook_eq)
  from Reconcile_success_state [OF get assms(4)]
  have "Get_Machine c' (NamespacedName req) = Inr (fst (Reconcile_body K c obj))" by simp
  then show ?thesis
    by (simp add: body map_delete_other map_delete_same)
qed

text \<open>
  A machine that carries the hook and the hook of another controller: the other hook is
  kept, the operator's own hook is removed.
\<close>

theorem Reconcile_deletes_only_own_hook_witness:
  "in_scope ex_K ex_cleaned_up ex_req
     (ex_machine (Some (fmupd ex_other_hook ''other-operator''
                          (fmupd preTerminateAnnotation ''ako-operator'' fmempty))))
     (ex_cluster ex_avi (Some 1600000000) []) \<and>
   deleting (ex_cluster ex_avi (Some 1600000000) []) \<and>
   \<not> finalizerPresent ex_K (ex_cluster ex_avi (Some 1600000000) []) \<and>
   snd (Reconcile ex_K ex_cleaned_up ex_req) = Inr (Result_zero, None) \<and>
   (\<exists>obj'. Get_Machine (fst (Reconcile ex_K ex_cleaned_up ex_req)) (NamespacedName ex_req) =
              Inr obj' \<and>
           map_index (Annotations obj') ex_other_hook = Some ''other-operator'' \<and>
           map_index (Annotations obj') preTerminateAnnotation = None)"
proof -
  let ?m = "ex_machine (Some (fmupd ex_other_hook ''other-operator''
                          (fmupd preTerminateAnnotation ''ako-operator'' fmempty)))"
  let ?cl = "ex_cluster ex_avi (Some 1600000000) []"
  have s: "in_scope ex_K ex_cleaned_up ex_req ?m ?cl"
    by (simp add: ex_cleaned_up_def in_scope_def owner_of_def ex_defs go_defs store_defs)
  have d: "deleting ?cl"
    by (simp add: deleting_def ex_cluster_def)
  have f: "\<not> finalizerPresent ex_K ?cl"
    by (simp add: finalizerPresent_def ContainsFinalizer_def ex_cluster_def)
  have r: "snd (Reconcile ex_K ex_cleaned_up ex_req) = Inr (Result_zero, None)"
    by (simp add: ex_cleaned_up_def ex_other_hook_def ex_defs go_defs store_defs ctl_defs)
  then have r': "Reconcile ex_K ex_cleaned_up ex_req =
      (fst (Reconcile ex_K ex_cleaned_up ex_req), Inr (Result_zero, None))"
    by (metis prod.collapse)
  have p: "HasWithPrefix PreTerminateDeleteHookAnnotationPrefix (Annotations ?m)"
    by (simp add: ex_other_hook_def ex_defs go_defs)
  have o: "map_index (Annotations ?m) ex_other_hook = Some ''other-operator''"
    by (simp add: ex_machine_def map_index_def)
  have n: "ex_other_hook \<noteq> preTerminateAnnotation"
    by (simp add: ex_other_hook_def preTerminateAnnotation_def)
  from Reconcile_deletes_only_own_hook [OF s d f r'] p o n
  have "\<exists>obj'. Get_Machine (fst (Reconcile ex_K ex_cleaned_up ex_req)) (NamespacedName ex_req) =
              Inr obj' \<and>
           map_index (Annotations obj') ex_other_hook = Some ''other-operator'' \<and>
           map_index (Annotations obj') preTerminateAnnotation = None"
    by metis
  with s d f r show ?thesis by (intro conjI)
qed

section \<open>Machines with a nil annotation map\<close>

text \<open>
  C10. For a machine in scope whose cluster is not being deleted and whose annotation map
  is nil, \<open>Reconcile\<close> does not panic and its decision logic returns no error:
  \<open>reconcileNormal\<close> allocates the map before it assigns, and the map then holds the hook
  entry and nothing else. The only error that \<open>Reconcile\<close> can return comes from the patch
  transaction; on a store whose patch transaction does not fail it returns no error and
  the machine in the store carries exactly the hook entry.
\<close>

theorem Reconcile_nil_annotations:
  assumes "in_scope K c req obj cluster"
    and "\<not> deleting cluster"
    and "Annotations obj = None"
  shows "Reconcile_body K c obj =
           (obj\<lparr>Annotations := Some (fmupd preTerminateAnnotation ''ako-operator'' fmempty)\<rparr>,
            Inr (Result_zero, None)) \<and>
         snd (Reconcile K c req) =
           Inr (Result_zero,
                case helper_fault c of
                  Some e \<Rightarrow> Some (Wrapf e ''failed to init patch helper for %s %s''
                       [GroupVersionKind obj, NamespacedName_String (NamespacedName req)])
                | None \<Rightarrow>
                    snd (Patch c \<lparr>before = obj\<rparr>
                      (obj\<lparr>Annotations :=
                             Some (fmupd preTerminateAnnotation ''ako-operator'' fmempty)\<rparr>))) \<and>
         (helper_fault c = None \<and> diff_fault c = None \<and> update_fault c = None \<longrightarrow>
            snd (Reconcile K c req) = Inr (Result_zero, None) \<and>
            Get_Machine (fst (Reconcile K c req)) (NamespacedName req) =
              Inr (obj\<lparr>Annotations := Some (fmupd preTerminateAnnotation ''ako-operator'' fmempty)\<rparr>))"
proof -
  let ?obj' = "obj\<lparr>Annotations := Some (fmupd preTerminateAnnotation ''ako-operator'' fmempty)\<rparr>"
  from assms(1) have get: "Get_Machine c (NamespacedName req) = Inr obj"
    by (simp add: in_scope_def)
  have body: "Reconcile_body K c obj = (?obj', Inr (Result_zero, None))"
    using assms(2,3)
    by (simp add: Reconcile_body_in_scope [OF assms(1)] deleting_def reconcileNormal_eq map_index_def)
  obtain c' perr where p: "Patch c \<lparr>before = obj\<rparr> ?obj' = (c', perr)"
    by (cases "Patch c \<lparr>before = obj\<rparr> ?obj'")
  have rec: "Reconcile K c req = (c', Inr (Result_zero, perr))" if "helper_fault c = None"
  proof -
    from that have "NewHelper c obj = Inr \<lparr>before = obj\<rparr>" by (simp add: NewHelper_def)
    then show ?thesis
      by (cases perr) (simp_all add: Reconcile_def get body deferred_patch_def p)
  qed
  have refused: "Reconcile K c req =
      (c, Inr (Result_zero, Some (Wrapf e ''failed to init patch helper for %s %s''
         [GroupVersionKind obj, NamespacedName_String (NamespacedName req)])))"
    if "helper_fault c = Some e" for e
    using that by (simp add: Reconcile_def get NewHelper_def)
  have key: "key_of ?obj' = NamespacedName req"
    using Get_Machine_key [OF get] by (simp add: key_of_def)
  have stored: "perr = None \<and> Get_Machine c' (NamespacedName req) = Inr ?obj'"
    if nf: "diff_fault c = None" "update_fault c = None"
  proof -
    from get have "find (\<lambda>m. key_of m = key_of ?obj') (machines c) = Some obj"
      by (auto simp: key Get_Machine_def split: option.splits)
    with p nf have "perr = None"
      by (auto simp: Patch_def Update_Machine_def Let_def split: if_splits)
    with p Patch_stored [OF get key] show ?thesis by simp
  qed
  show ?thesis
  proof (cases "helper_fault c")
    case None
    with body rec p stored show ?thesis by simp
  next
    case (Some e)
    with body refused show ?thesis by simp
  qed
qed

text \<open>The machine \<open>default/md-0\<close> with a nil annotation map, in a store without faults.\<close>

theorem Reconcile_nil_annotations_witness:
  "in_scope ex_K ex_nil ex_req (ex_machine None) (ex_cluster ex_avi None []) \<and>
   \<not> deleting (ex_cluster ex_avi None []) \<and>
   Annotations (ex_machine None) = None \<and>
   snd (Reconcile ex_K ex_nil ex_req) = Inr (Result_zero, None) \<and>
   Get_Machine (fst (Reconcile ex_K ex_nil ex_req)) (NamespacedName ex_req) =
     Inr (ex_machine (Some (fmupd preTerminateAnnotation ''ako-operator'' fmempty)))"
proof -
  have s: "in_scope ex_K ex_nil ex_req (ex_machine None) (ex_cluster ex_avi None [])"
    by (simp add: ex_nil_def in_scope_def owner_of_def ex_defs go_defs store_defs)
  have d: "\<not> deleting (ex_cluster ex_avi None [])"
    by (simp add: deleting_def ex_cluster_def)
  have a: "Annotations (ex_machine None) = None"
    by (simp add: ex_machine_def)
  have f: "helper_fault ex_nil = None" "diff_fault ex_nil = None" "update_fault ex_nil = None"
    by (simp_all add: ex_nil_def ex_client_def)
  have m: "(ex_machine None)\<lparr>Annotations := Some (fmupd preTerminateAnnotation ''ako-operator'' fmempty)\<rparr>
      = ex_machine (Some (fmupd preTerminateAnnotation ''ako-operator'' fmempty))"
    by (simp add: ex_machine_def)
  from Reconcile_nil_annotations [OF s d a] f
  have "snd (Reconcile ex_K ex_nil ex_req) = Inr (Result_zero, None) \<and>
     Get_Machine (fst (Reconcile ex_K ex_nil ex_req)) (NamespacedName ex_req) =
       Inr ((ex_machine None)\<lparr>Annotations := Some (fmupd preTerminateAnnotation ''ako-operator'' fmempty)\<rparr>)"
    by blast
  with s d a show ?thesis
    by (simp only: m simp_thms)
qed

end
